theory Spec2Isabelle
  imports Complex_Main "HOL-Library.List_Lexorder" "HOL-Library.Code_Target_Numeral"
begin

section \<open>Python values of \<open>aura.py\<close>\<close>

text \<open>
  The report functions of \<open>aura.py\<close> build Python strings that hold glyphs outside
  ASCII (the sparkline bars, the trend arrows) and pad them by their number of code points.
  A Python \<open>str\<close> is therefore a list of code points; \<open>str\<close> turns an ASCII literal
  into one. With the lexicographic order on lists, \<open>(<)\<close> on such lists is Python's
  comparison of strings.
\<close>

type_synonym pystr = "nat list"

definition str :: "string \<Rightarrow> pystr" where
  "str s = map of_char s"

datatype exc =
  ValueError | TypeError | AttributeError | OverflowError | ZeroDivisionError | IndexError
  | KeyError

text \<open>Exceptions are values: \<open>Inl e\<close> is a raised \<open>e\<close>, and \<open>bind_exc\<close> runs the next
  statement only when the one before returned.\<close>

definition bind_exc :: "exc + 'a \<Rightarrow> ('a \<Rightarrow> exc + 'b) \<Rightarrow> exc + 'b" where
  "bind_exc m f = (case m of Inl e \<Rightarrow> Inl e | Inr x \<Rightarrow> f x)"

fun fold_exc :: "('s \<Rightarrow> 'a \<Rightarrow> exc + 's) \<Rightarrow> 'a list \<Rightarrow> 's \<Rightarrow> exc + 's" where
  "fold_exc f [] s = Inr s"
| "fold_exc f (x # xs) s = bind_exc (f s x) (fold_exc f xs)"

subsection \<open>Decimal digits\<close>

text \<open>The digits of a natural number, as \<open>format(n, "d")\<close> prints them.\<close>

fun dec :: "nat \<Rightarrow> pystr" where
  "dec n = (if n < 10 then [48 + n] else dec (n div 10) @ [48 + n mod 10])"

declare dec.simps [simp del]

text \<open>\<open>f"{i:02d}"\<close>: sign, then zeros up to a width of two, then the digits.\<close>

definition fmt_02d :: "int \<Rightarrow> pystr" where
  "fmt_02d i =
     (let sign = (if i < 0 then str ''-'' else []);
          body = dec (nat \<bar>i\<bar>)
      in sign @ replicate (2 - length sign - length body) 48 @ body)"

subsection \<open>\<open>int(s)\<close> on text\<close>

text \<open>
  \<open>int(s)\<close> for ASCII text: blanks around the number are dropped, a sign may lead, and
  the digits may be grouped by single underscores. Anything else raises \<open>ValueError\<close>.
  (Python also reads digits and blanks outside ASCII; the hour labels never hold any.)
\<close>

definition is_space :: "nat \<Rightarrow> bool" where
  "is_space c = (c = 32 \<or> (9 \<le> c \<and> c \<le> 13))"

definition is_digit :: "nat \<Rightarrow> bool" where
  "is_digit c = (48 \<le> c \<and> c \<le> 57)"

definition strip_ws :: "pystr \<Rightarrow> pystr" where
  "strip_ws s = rev (dropWhile is_space (rev (dropWhile is_space s)))"

fun digit_groups :: "pystr \<Rightarrow> bool" where
  "digit_groups [] = False"
| "digit_groups [c] = is_digit c"
| "digit_groups (c # d # s) =
     (if is_digit c then digit_groups (d # s)
      else c = 95 \<and> is_digit d \<and> digit_groups (d # s))"

definition digits_value :: "pystr \<Rightarrow> nat" where
  "digits_value s = foldl (\<lambda>acc c. if c = 95 then acc else 10 * acc + (c - 48)) 0 s"

definition py_int :: "pystr \<Rightarrow> exc + int" where
  "py_int s =
     (let t = strip_ws s;
          neg = (t \<noteq> [] \<and> hd t = 45);
          u = (if t \<noteq> [] \<and> (hd t = 45 \<or> hd t = 43) then tl t else t)
      in if u \<noteq> [] \<and> is_digit (hd u) \<and> digit_groups u
         then Inr (if neg then - int (digits_value u) else int (digits_value u))
         else Inl ValueError)"

text \<open>A comprehension \<open>[f(x) for x in xs]\<close> stops at the first exception.\<close>

fun map_exc :: "('a \<Rightarrow> exc + 'b) \<Rightarrow> 'a list \<Rightarrow> exc + 'b list" where
  "map_exc f [] = Inr []"
| "map_exc f (x # xs) =
     (case f x of
        Inl e \<Rightarrow> Inl e
      | Inr y \<Rightarrow> (case map_exc f xs of Inl e \<Rightarrow> Inl e | Inr ys \<Rightarrow> Inr (y # ys)))"

subsection \<open>Text helpers\<close>

text \<open>\<open>sep.join(parts)\<close>, \<open>s.rstrip(c)\<close> for a single character, and \<open>"{:<w}"\<close>.\<close>

fun py_join :: "pystr \<Rightarrow> pystr list \<Rightarrow> pystr" where
  "py_join sep [] = []"
| "py_join sep [x] = x"
| "py_join sep (x # y # ys) = x @ sep @ py_join sep (y # ys)"

definition rstrip :: "nat \<Rightarrow> pystr \<Rightarrow> pystr" where
  "rstrip c s = rev (dropWhile (\<lambda>x. x = c) (rev s))"

definition ljust :: "nat \<Rightarrow> pystr \<Rightarrow> pystr" where
  "ljust w s = s @ replicate (w - length s) 32"

section \<open>Floats\<close>

text \<open>
  A Python float is an IEEE 754 binary64 value: a finite number \<open>Fin q\<close>, written with
  the rational \<open>q\<close> it denotes (\<open>Fin 0\<close> is \<open>0.0\<close>), the negative zero \<open>-0.0\<close>, one of
  the two infinities, or NaN (whose sign no operation of the program shows).
\<close>

datatype pyfloat = Fin rat | NegZero | PInf | NInf | NaN

fun is_zero :: "pyfloat \<Rightarrow> bool" where
  "is_zero (Fin q) = (q = 0)"
| "is_zero NegZero = True"
| "is_zero _ = False"

fun is_inf :: "pyfloat \<Rightarrow> bool" where
  "is_inf PInf = True"
| "is_inf NInf = True"
| "is_inf _ = False"

fun is_finite :: "pyfloat \<Rightarrow> bool" where
  "is_finite (Fin q) = True"
| "is_finite NegZero = True"
| "is_finite _ = False"

text \<open>The sign bit, and the rational a finite float denotes.\<close>

fun negative :: "pyfloat \<Rightarrow> bool" where
  "negative (Fin q) = (q < 0)"
| "negative NegZero = True"
| "negative NInf = True"
| "negative _ = False"

fun val :: "pyfloat \<Rightarrow> rat" where
  "val (Fin q) = q"
| "val _ = 0"

definition signed_zero :: "bool \<Rightarrow> pyfloat" where
  "signed_zero neg = (if neg then NegZero else Fin 0)"

definition signed_inf :: "bool \<Rightarrow> pyfloat" where
  "signed_inf neg = (if neg then NInf else PInf)"

subsection \<open>Rounding to the nearest double\<close>

definition round_half_even :: "rat \<Rightarrow> int" where
  "round_half_even q =
     (let f = \<lfloor>q\<rfloor>; r = q - of_int f
      in if r < 1 / 2 then f else if 1 / 2 < r then f + 1 else if even f then f else f + 1)"

definition pow2 :: "int \<Rightarrow> rat" where
  "pow2 e = (if 0 \<le> e then 2 ^ nat e else 1 / 2 ^ nat (- e))"

fun bit_length :: "nat \<Rightarrow> nat" where
  "bit_length n = (if n = 0 then 0 else Suc (bit_length (n div 2)))"

declare bit_length.simps [simp del]

text \<open>\<open>ilog2 a\<close> is the exponent \<open>k\<close> with \<open>2 ^ k \<le> a < 2 ^ (k + 1)\<close>, for \<open>a > 0\<close>.\<close>

definition ilog2 :: "rat \<Rightarrow> int" where
  "ilog2 a =
     (if 1 \<le> a then int (bit_length (nat \<lfloor>a\<rfloor>)) - 1
      else - int (bit_length (nat (\<lceil>1 / a\<rceil> - 1))))"

text \<open>
  \<open>binary64 q\<close> is the multiple of the spacing of the doubles around \<open>q\<close> that is nearest
  to \<open>q\<close>, ties to even: 53 significant bits, and the spacing \<open>2 ^ - 1074\<close> of the
  subnormal numbers below \<open>2 ^ - 1022\<close>. It does not bound the exponent from above;
  \<open>double_of\<close> does, and gives the float an operation returns for the exact result \<open>q\<close>:
  an infinity when the rounded magnitude reaches \<open>2 ^ 1024\<close>, that is when its exponent
  \<open>ilog2\<close> reaches 1024; a zero with the sign of \<open>q\<close> when \<open>q\<close> is not zero and
  rounds to zero.
\<close>

definition binary64 :: "rat \<Rightarrow> rat" where
  "binary64 q =
     (if q = 0 then 0
      else let a = \<bar>q\<bar>;
               e = max (ilog2 a - 52) (- 1074);
               m = round_half_even (a / pow2 e)
           in sgn q * of_int m * pow2 e)"

definition double_of :: "rat \<Rightarrow> pyfloat" where
  "double_of q =
     (let r = binary64 q
      in if 1024 \<le> ilog2 \<bar>r\<bar> then signed_inf (q < 0)
         else if r = 0 \<and> q < 0 then NegZero
         else Fin r)"

subsection \<open>Arithmetic\<close>

text \<open>
  \<open>x + y\<close>, \<open>-x\<close>, \<open>x - y\<close>, \<open>x * y\<close> and \<open>x / y\<close> on floats. NaN spreads; the
  infinities of opposite sign add up to NaN, as do zero times infinity and infinity by
  infinity; a sum of zeros is negative only when both are, and an exact sum zero of other
  numbers is \<open>0.0\<close>; the sign of a product or quotient is the product of the signs.
  Only the division raises: \<open>ZeroDivisionError\<close> for a divisor \<open>0.0\<close> or \<open>-0.0\<close>.
\<close>

definition py_add :: "pyfloat \<Rightarrow> pyfloat \<Rightarrow> pyfloat" where
  "py_add x y =
     (if x = NaN \<or> y = NaN then NaN
      else if is_inf x then (if is_inf y \<and> x \<noteq> y then NaN else x)
      else if is_inf y then y
      else if is_zero x \<and> is_zero y then signed_zero (negative x \<and> negative y)
      else if val x + val y = 0 then Fin 0
      else double_of (val x + val y))"

definition py_neg :: "pyfloat \<Rightarrow> pyfloat" where
  "py_neg x =
     (case x of
        Fin q \<Rightarrow> (if q = 0 then NegZero else Fin (- q))
      | NegZero \<Rightarrow> Fin 0
      | PInf \<Rightarrow> NInf
      | NInf \<Rightarrow> PInf
      | NaN \<Rightarrow> NaN)"

definition py_sub :: "pyfloat \<Rightarrow> pyfloat \<Rightarrow> pyfloat" where
  "py_sub x y = py_add x (py_neg y)"

definition py_mul :: "pyfloat \<Rightarrow> pyfloat \<Rightarrow> pyfloat" where
  "py_mul x y =
     (if x = NaN \<or> y = NaN then NaN
      else if is_inf x \<or> is_inf y
        then (if is_zero x \<or> is_zero y then NaN else signed_inf (negative x \<noteq> negative y))
      else if val x * val y = 0 then signed_zero (negative x \<noteq> negative y)
      else double_of (val x * val y))"

definition py_div :: "pyfloat \<Rightarrow> pyfloat \<Rightarrow> exc + pyfloat" where
  "py_div x y =
     (if is_zero y then Inl ZeroDivisionError
      else Inr (if x = NaN \<or> y = NaN then NaN
                else if is_inf x
                  then (if is_inf y then NaN else signed_inf (negative x \<noteq> negative y))
                else if is_inf y \<or> is_zero x then signed_zero (negative x \<noteq> negative y)
                else double_of (val x / val y)))"

definition py_abs :: "pyfloat \<Rightarrow> pyfloat" where
  "py_abs x =
     (case x of
        Fin q \<Rightarrow> Fin \<bar>q\<bar>
      | NegZero \<Rightarrow> Fin 0
      | PInf \<Rightarrow> PInf
      | NInf \<Rightarrow> PInf
      | NaN \<Rightarrow> NaN)"

text \<open>
  The comparisons \<open>x < y\<close>, \<open>x <= y\<close> and \<open>x == y\<close>: false whenever an operand is NaN,
  and the two zeros are equal.
\<close>

definition py_lt :: "pyfloat \<Rightarrow> pyfloat \<Rightarrow> bool" where
  "py_lt x y =
     (x \<noteq> NaN \<and> y \<noteq> NaN \<and> x \<noteq> PInf \<and> y \<noteq> NInf \<and>
      (x = NInf \<or> y = PInf \<or> val x < val y))"

definition py_le :: "pyfloat \<Rightarrow> pyfloat \<Rightarrow> bool" where
  "py_le x y = (x \<noteq> NaN \<and> y \<noteq> NaN \<and> \<not> py_lt y x)"

definition py_eq :: "pyfloat \<Rightarrow> pyfloat \<Rightarrow> bool" where
  "py_eq x y = (x \<noteq> NaN \<and> y \<noteq> NaN \<and> (x = y \<or> is_zero x \<and> is_zero y))"

text \<open>
  \<open>round(x, n)\<close>: the decimal with \<open>n\<close> places nearest to the exact value of \<open>x\<close>
  (ties to even), read back as a double; the sign of \<open>x\<close> is kept when the result is
  zero, and an infinity or NaN is returned as it is.
\<close>

definition py_round :: "pyfloat \<Rightarrow> nat \<Rightarrow> pyfloat" where
  "py_round x n =
     (case x of
        Fin q \<Rightarrow>
          (let r = of_int (round_half_even (q * 10 ^ n)) / 10 ^ n
           in if r = 0 then signed_zero (q < 0) else double_of r)
      | _ \<Rightarrow> x)"

text \<open>
  \<open>int(x)\<close> on a float truncates towards zero; it raises \<open>ValueError\<close> for NaN and
  \<open>OverflowError\<close> for an infinity.
\<close>

definition py_trunc :: "pyfloat \<Rightarrow> exc + int" where
  "py_trunc x =
     (case x of
        Fin q \<Rightarrow> Inr (if 0 \<le> q then \<lfloor>q\<rfloor> else \<lceil>q\<rceil>)
      | NegZero \<Rightarrow> Inr 0
      | NaN \<Rightarrow> Inl ValueError
      | _ \<Rightarrow> Inl OverflowError)"

text \<open>The float of a count such as \<open>len(values)\<close>, as the division converts it.\<close>

definition float_of_nat :: "nat \<Rightarrow> pyfloat" where
  "float_of_nat n = double_of (of_nat n)"

text \<open>
  \<open>total = 0.0\<close> followed by \<open>total += x\<close> for each \<open>x\<close>. This is also what the builtin
  \<open>sum\<close> computes for floats up to Python 3.11; from Python 3.12 on \<open>sum\<close> compensates
  the rounding errors of the additions, so its last digit can differ. The report functions
  below therefore take \<open>sum\<close> on a list of floats as a parameter \<open>py_sum\<close>.
\<close>

definition add_up :: "pyfloat list \<Rightarrow> pyfloat" where
  "add_up xs = foldl py_add (Fin 0) xs"

text \<open>
  \<open>min\<close> and \<open>max\<close> of a non-empty list keep the first item that no later item is
  smaller (larger) than, by \<open><\<close>; a NaN is therefore kept or passed over according to
  its position.
\<close>

definition py_min :: "pyfloat \<Rightarrow> pyfloat list \<Rightarrow> pyfloat" where
  "py_min x xs = foldl (\<lambda>m y. if py_lt y m then y else m) x xs"

definition py_max :: "pyfloat \<Rightarrow> pyfloat list \<Rightarrow> pyfloat" where
  "py_max x xs = foldl (\<lambda>m y. if py_lt m y then y else m) x xs"

text \<open>
  An hourly price map is a Python \<open>dict\<close> from hour label to float: its items in
  insertion order, the keys distinct.
\<close>

type_synonym price_map = "(pystr \<times> pyfloat) list"

text \<open>
  Sorting items by their float, \<open>sorted(items, key=value, reverse=r)\<close>. Python's sort is
  stable, also when reversed: items with equal keys keep their order. \<open>stable_sorted\<close> is
  that sort, by insertion. With a NaN among the keys the comparisons are inconsistent and the
  order Python returns depends on the steps of its merge sort: for such a list the result is
  taken from the parameter \<open>nan_sorted\<close>.
\<close>

fun insert_by :: "bool \<Rightarrow> pystr \<times> pyfloat \<Rightarrow> price_map \<Rightarrow> price_map" where
  "insert_by r x [] = [x]"
| "insert_by r x (y # ys) =
     (if (if r then py_lt (snd x) (snd y) else py_lt (snd y) (snd x))
      then y # insert_by r x ys
      else x # y # ys)"

definition stable_sorted :: "bool \<Rightarrow> price_map \<Rightarrow> price_map" where
  "stable_sorted r xs = foldr (insert_by r) xs []"

definition py_sorted ::
  "(bool \<Rightarrow> price_map \<Rightarrow> price_map) \<Rightarrow> bool \<Rightarrow> price_map \<Rightarrow> price_map" where
  "py_sorted nan_sorted r xs =
     (if NaN \<in> set (map snd xs) then nan_sorted r xs else stable_sorted r xs)"

section \<open>\<open>format_price\<close>\<close>

text \<open>
  \<open>f"{x:.{n}f}"\<close>. The format specification is read first: a negative precision, or one
  above \<open>2 ^ 31 - 1\<close>, raises \<open>ValueError\<close>. An infinity is rendered \<open>inf\<close> or
  \<open>-inf\<close> and NaN \<open>nan\<close>, whatever the precision. A finite \<open>x\<close> is rendered by
  \<open>fixed_digits\<close>: its exact value rounded to \<open>n\<close> decimal places, ties to even; a minus
  sign when the sign bit is set (also for \<open>-0.0\<close> and for a negative value that rounds to
  zero), the integer digits, and for \<open>n > 0\<close> the separator and exactly \<open>n\<close> fractional
  digits.
\<close>

definition zero_pad :: "nat \<Rightarrow> pystr \<Rightarrow> pystr" where
  "zero_pad n s = replicate (n - length s) 48 @ s"

definition fixed_digits :: "bool \<Rightarrow> rat \<Rightarrow> nat \<Rightarrow> pystr" where
  "fixed_digits neg a n =
     (let scaled = nat (round_half_even (a * 10 ^ n));
          sign = (if neg then str ''-'' else [])
      in sign @ dec (scaled div 10 ^ n) @
         (if n = 0 then [] else str ''.'' @ zero_pad n (dec (scaled mod 10 ^ n))))"

definition py_format_f :: "pyfloat \<Rightarrow> int \<Rightarrow> exc + pystr" where
  "py_format_f x n =
     (if n < 0 \<or> 2147483647 < n then Inl ValueError
      else Inr (case x of
                  NaN \<Rightarrow> str ''nan''
                | PInf \<Rightarrow> str ''inf''
                | NInf \<Rightarrow> str ''-inf''
                | _ \<Rightarrow> fixed_digits (negative x) \<bar>val x\<bar> (nat n)))"

text \<open>
  \<open>formatted.rstrip("0").rstrip(".") if "." in formatted else formatted\<close>.
\<close>

definition trim_zeros :: "pystr \<Rightarrow> pystr" where
  "trim_zeros formatted =
     (if 46 \<in> set formatted then rstrip 46 (rstrip 48 formatted) else formatted)"

definition format_price :: "pyfloat \<Rightarrow> int \<Rightarrow> exc + pystr" where
  "format_price price max_decimals =
     bind_exc (py_format_f price max_decimals) (\<lambda>formatted. Inr (trim_zeros formatted))"

section \<open>\<open>_format_hour_ranges\<close>\<close>

definition hour_range :: "int \<Rightarrow> int \<Rightarrow> pystr" where
  "hour_range start end' =
     (if start = end' then fmt_02d start @ str '':00''
      else fmt_02d start @ str '':00-'' @ fmt_02d ((end' + 1) mod 24) @ str '':00'')"

text \<open>The loop over \<open>hour_ints[1:]\<close>, with \<open>ranges\<close>, \<open>start\<close> and \<open>end\<close> as its state.\<close>

fun ranges_loop :: "pystr list \<Rightarrow> int \<Rightarrow> int \<Rightarrow> int list \<Rightarrow> pystr list" where
  "ranges_loop ranges start end' [] = ranges @ [hour_range start end']"
| "ranges_loop ranges start end' (h # hs) =
     (if h = end' + 1 then ranges_loop ranges start h hs
      else ranges_loop (ranges @ [hour_range start end']) h h hs)"

definition format_hour_ranges :: "pystr list \<Rightarrow> exc + pystr" where
  "format_hour_ranges hours =
     (if hours = [] then Inr []
      else case map_exc py_int hours of
             Inl e \<Rightarrow> Inl e
           | Inr ints \<Rightarrow>
               (case sort ints of
                  [] \<Rightarrow> Inr []
                | start # rest \<Rightarrow> Inr (py_join (str '', '') (ranges_loop [] start start rest))))"

text \<open>
  The runs the loop has closed, as pairs of first and last hour: the same walk as
  \<open>ranges_loop\<close>, before the runs are rendered.
\<close>

fun runs_loop :: "(int \<times> int) list \<Rightarrow> int \<Rightarrow> int \<Rightarrow> int list \<Rightarrow> (int \<times> int) list" where
  "runs_loop acc s e [] = acc @ [(s, e)]"
| "runs_loop acc s e (h # hs) =
     (if h = e + 1 then runs_loop acc s h hs else runs_loop (acc @ [(s, e)]) h h hs)"

section \<open>\<open>_ascii_sparkline\<close>\<close>

text \<open>\<open>bars[i]\<close> for the eight bars U+2581 to U+2588; a negative index counts from the end.\<close>

definition bars_at :: "int \<Rightarrow> exc + pystr" where
  "bars_at i =
     (if 0 \<le> i \<and> i < 8 then Inr [9601 + nat i]
      else if - 8 \<le> i \<and> i < 0 then Inr [9601 + nat (8 + i)]
      else Inl IndexError)"

text \<open>
  \<open>scale(p)\<close> and the sparkline. The integer 7 is converted to the float \<open>7.0\<close> by the
  multiplication.
\<close>

definition scale :: "pyfloat \<Rightarrow> pyfloat \<Rightarrow> pyfloat \<Rightarrow> exc + int" where
  "scale min_p max_p p =
     (if py_lt min_p max_p
      then bind_exc (py_div (py_sub p min_p) (py_sub max_p min_p))
             (\<lambda>q. py_trunc (py_mul q (Fin 7)))
      else Inr 0)"

definition ascii_sparkline :: "pyfloat option list \<Rightarrow> exc + pystr" where
  "ascii_sparkline prices =
     (case concat (map (\<lambda>p. case p of None \<Rightarrow> [] | Some x \<Rightarrow> [x]) prices) of
        [] \<Rightarrow> Inr []
      | p0 # ps \<Rightarrow>
          (let min_p = py_min p0 ps; max_p = py_max p0 ps
           in bind_exc (map_exc (\<lambda>p. bind_exc (scale min_p max_p p) bars_at) (p0 # ps))
                (\<lambda>glyphs. Inr (concat glyphs))))"

section \<open>\<open>format_prices_for_display\<close>\<close>

text \<open>The literal \<open>0.00001\<close>.\<close>

definition eps_price :: pyfloat where
  "eps_price = double_of (1 / 100000)"

text \<open>
  \<open>sorted(prices)\<close>, \<open>sorted(prices, key=prices.get)\<close> and the same with
  \<open>reverse=True\<close>, as the items in the order of the sorted keys.
\<close>

definition ordered_items ::
  "(bool \<Rightarrow> price_map \<Rightarrow> price_map) \<Rightarrow> price_map \<Rightarrow> pystr option \<Rightarrow> price_map" where
  "ordered_items nan_sorted prices sort_by =
     (if sort_by = Some (str ''price'') then py_sorted nan_sorted False prices
      else if sort_by = Some (str ''price_desc'') then py_sorted nan_sorted True prices
      else sort_key fst prices)"

definition price_row :: "pystr \<times> pyfloat \<Rightarrow> exc + pystr" where
  "price_row kv =
     bind_exc (py_int (fst kv)) (\<lambda>i.
     bind_exc (format_price (snd kv) 4) (\<lambda>price.
       Inr (fst kv @ str '':00 - '' @ fmt_02d ((i + 1) mod 24) @ str '':00 | '' @
            price @ str '' DKK/kWh'')))"

text \<open>\<open>[h for h, p in prices.items() if abs(p - extreme) < 0.00001]\<close>.\<close>

definition cheapest_hours :: "price_map \<Rightarrow> pyfloat \<Rightarrow> pystr list" where
  "cheapest_hours prices extreme =
     map fst (filter (\<lambda>kv. py_lt (py_abs (py_sub (snd kv) extreme)) eps_price) prices)"

definition price_report_lines ::
  "(pyfloat list \<Rightarrow> pyfloat) \<Rightarrow> (bool \<Rightarrow> price_map \<Rightarrow> price_map) \<Rightarrow>
   price_map \<Rightarrow> pystr \<Rightarrow> pystr option \<Rightarrow> exc + pystr list" where
  "price_report_lines py_sum nan_sorted prices date_str sort_by =
     (let vals = map snd prices;
          min_price = py_min (hd vals) (tl vals);
          max_price = py_max (hd vals) (tl vals)
      in bind_exc (py_div (py_sum vals) (float_of_nat (length vals))) (\<lambda>avg_price.
         bind_exc (format_price avg_price 4) (\<lambda>avg_text.
         bind_exc (format_hour_ranges (cheapest_hours prices min_price)) (\<lambda>cheapest.
         bind_exc (format_price min_price 4) (\<lambda>min_text.
         bind_exc (format_hour_ranges (cheapest_hours prices max_price)) (\<lambda>expensive.
         bind_exc (format_price max_price 4) (\<lambda>max_text.
         bind_exc (ascii_sparkline (map Some vals)) (\<lambda>spark.
         bind_exc (map_exc price_row (ordered_items nan_sorted prices sort_by)) (\<lambda>rows.
           Inr ([str '' HOURLY POWER PRICES (DK1) - '' @ date_str @ str '' '',
                 str ''Average Price: '' @ avg_text @ str '' DKK/kWh'',
                 str ''Cheapest: '' @ cheapest @ str '' ('' @ min_text @ str '' DKK/kWh)'',
                 str ''Most Expensive: '' @ expensive @ str '' ('' @ max_text @
                   str '' DKK/kWh)'',
                 str ''Trend Sparkline: '' @ spark] @ rows))))))))))"

definition format_prices_for_display ::
  "(pyfloat list \<Rightarrow> pyfloat) \<Rightarrow> (bool \<Rightarrow> price_map \<Rightarrow> price_map) \<Rightarrow>
   price_map \<Rightarrow> pystr \<Rightarrow> pystr option \<Rightarrow> exc + pystr" where
  "format_prices_for_display py_sum nan_sorted prices date_str sort_by =
     (if prices = [] then Inr (str ''No price data for '' @ date_str @ str ''.'')
      else bind_exc (price_report_lines py_sum nan_sorted prices date_str sort_by)
             (\<lambda>output_lines. Inr (py_join [10] output_lines)))"

section \<open>\<open>format_comparison_for_display\<close>\<close>

text \<open>The literal \<open>0.0001\<close>; \<open>-0.0001\<close> is its negation.\<close>

definition eps_diff :: pyfloat where
  "eps_diff = double_of (1 / 10000)"

definition dict_get :: "price_map \<Rightarrow> pystr \<Rightarrow> exc + pyfloat" where
  "dict_get d k = (case map_of d k of None \<Rightarrow> Inl KeyError | Some v \<Rightarrow> Inr v)"

record tally =
  diffs :: "(pystr \<times> pyfloat) list"
  up :: nat
  down :: nat
  stable :: nat

text \<open>One turn of the loop \<open>for hour in range(24)\<close>.\<close>

definition diff_step :: "price_map \<Rightarrow> price_map \<Rightarrow> tally \<Rightarrow> nat \<Rightarrow> tally" where
  "diff_step today_prices yesterday_prices t hour =
     (let h = fmt_02d (int hour)
      in case (map_of today_prices h, map_of yesterday_prices h) of
           (Some today, Some yest) \<Rightarrow>
             (let diff = py_sub today yest;
                  t' = t\<lparr>diffs := diffs t @ [(h, diff)]\<rparr>
              in if py_lt eps_diff diff then t'\<lparr>up := up t + 1\<rparr>
                 else if py_lt diff (py_neg eps_diff) then t'\<lparr>down := down t + 1\<rparr>
                 else t'\<lparr>stable := stable t + 1\<rparr>)
         | _ \<Rightarrow> t)"

definition collect_diffs :: "price_map \<Rightarrow> price_map \<Rightarrow> tally" where
  "collect_diffs today_prices yesterday_prices =
     foldl (diff_step today_prices yesterday_prices)
       \<lparr>diffs = [], up = 0, down = 0, stable = 0\<rparr> [0..<24]"

definition comparison_header :: pystr where
  "comparison_header =
     ljust 11 (str ''Hour'') @ str '' | '' @ ljust 8 (str ''Yest'') @ str '' | '' @
     ljust 8 (str ''Today'') @ str '' | '' @ ljust 8 (str ''Change'') @ str '' | '' @
     ljust 8 (str ''% Chg'') @ str '' | '' @ ljust 5 (str ''Trend'')"

text \<open>The trend glyphs: U+25B2 up, U+25BC down, U+25CF stable.\<close>

definition trend_glyph :: "pyfloat \<Rightarrow> pystr" where
  "trend_glyph diff =
     (if py_lt eps_diff diff then [9650]
      else if py_lt diff (py_neg eps_diff) then [9660]
      else [9679])"

text \<open>\<open>(diff / yest * 100) if yest != 0 else None\<close>.\<close>

definition pct_change :: "pyfloat \<Rightarrow> pyfloat \<Rightarrow> exc + pyfloat option" where
  "pct_change diff yest =
     (if \<not> py_eq yest (Fin 0)
      then bind_exc (py_div diff yest) (\<lambda>q. Inr (Some (py_mul q (Fin 100))))
      else Inr None)"

definition comparison_row :: "price_map \<Rightarrow> price_map \<Rightarrow> pystr \<times> pyfloat \<Rightarrow> exc + pystr" where
  "comparison_row today_prices yesterday_prices hd' =
     (let hour_str = fst hd'; diff = snd hd'
      in bind_exc (dict_get yesterday_prices hour_str) (\<lambda>yest.
         bind_exc (dict_get today_prices hour_str) (\<lambda>today.
         bind_exc (pct_change diff yest) (\<lambda>pct_chg.
         bind_exc (case pct_chg of
                     Some pct \<Rightarrow> bind_exc (format_price pct 2) (\<lambda>s. Inr (s @ str ''%''))
                   | None \<Rightarrow> Inr (str ''N/A'')) (\<lambda>pct_chg_formatted.
         bind_exc (py_int hour_str) (\<lambda>i.
         bind_exc (format_price yest 4) (\<lambda>yest_text.
         bind_exc (format_price today 4) (\<lambda>today_text.
         bind_exc (if py_le (Fin 0) diff then format_price diff 4
                   else bind_exc (format_price (py_abs diff) 4) (\<lambda>s. Inr (str ''-'' @ s)))
           (\<lambda>change.
           Inr (ljust 11 (hour_str @ str '':00-'' @ fmt_02d ((i + 1) mod 24) @ str '':00'') @
                str '' | '' @ ljust 8 yest_text @
                str '' | '' @ ljust 8 today_text @
                str '' | '' @ ljust 8 change @
                str '' | '' @ ljust 8 pct_chg_formatted @
                str '' | '' @ ljust 5 (trend_glyph diff)))))))))))"

definition comparison_summary :: "(pyfloat list \<Rightarrow> pyfloat) \<Rightarrow> tally \<Rightarrow> exc + pystr list" where
  "comparison_summary py_sum t =
     (if diffs t = [] then Inr []
      else bind_exc (py_div (py_sum (map snd (diffs t))) (float_of_nat (length (diffs t))))
             (\<lambda>avg_diff.
           bind_exc (format_price avg_diff 4) (\<lambda>avg_text.
           bind_exc (ascii_sparkline (map (\<lambda>d. Some (snd d)) (diffs t))) (\<lambda>spark.
             Inr [str ''Avg Change: '' @ avg_text @ str '' DKK/kWh'',
                  str ''Increased: '' @ dec (up t) @ str '' | Decreased: '' @ dec (down t) @
                    str '' | Stable: '' @ dec (stable t),
                  str ''Trend Sparkline (Diffs): '' @ spark]))))"

text \<open>
  \<open>diffs.sort(key=lambda x: x[1])\<close> for \<open>"diff"\<close>, the same with \<open>reverse=True\<close> for
  \<open>"diff_desc"\<close>, and the order of the hours otherwise.
\<close>

definition sorted_diffs ::
  "(bool \<Rightarrow> price_map \<Rightarrow> price_map) \<Rightarrow> (pystr \<times> pyfloat) list \<Rightarrow> pystr option \<Rightarrow>
   (pystr \<times> pyfloat) list" where
  "sorted_diffs nan_sorted ds sort_by =
     (if sort_by = Some (str ''diff'') then py_sorted nan_sorted False ds
      else if sort_by = Some (str ''diff_desc'') then py_sorted nan_sorted True ds
      else ds)"

definition comparison_lines ::
  "(pyfloat list \<Rightarrow> pyfloat) \<Rightarrow> (bool \<Rightarrow> price_map \<Rightarrow> price_map) \<Rightarrow>
   price_map \<Rightarrow> pystr \<Rightarrow> price_map \<Rightarrow> pystr \<Rightarrow> pystr option \<Rightarrow> exc + pystr list" where
  "comparison_lines py_sum nan_sorted today_prices today_date_str yesterday_prices
       yesterday_date_str sort_by =
     (let t = collect_diffs today_prices yesterday_prices
      in bind_exc (comparison_summary py_sum t) (\<lambda>summary.
         bind_exc (map_exc (comparison_row today_prices yesterday_prices)
                     (sorted_diffs nan_sorted (diffs t) sort_by)) (\<lambda>rows.
           Inr ([str '' PRICE COMPARISON ('' @ today_date_str @ str '' vs '' @
                   yesterday_date_str @ str '') ''] @
                summary @ [comparison_header] @ rows))))"

definition format_comparison_for_display ::
  "(pyfloat list \<Rightarrow> pyfloat) \<Rightarrow> (bool \<Rightarrow> price_map \<Rightarrow> price_map) \<Rightarrow>
   price_map \<Rightarrow> pystr \<Rightarrow> price_map \<Rightarrow> pystr \<Rightarrow> pystr option \<Rightarrow> exc + pystr" where
  "format_comparison_for_display py_sum nan_sorted today_prices today_date_str
       yesterday_prices yesterday_date_str sort_by =
     (if today_prices = [] \<or> yesterday_prices = [] then Inr []
      else bind_exc (comparison_lines py_sum nan_sorted today_prices today_date_str
                       yesterday_prices yesterday_date_str sort_by)
             (\<lambda>ls. Inr (py_join [10] ls)))"

section \<open>\<open>fetch_prices\<close>: from the decoded response to the hourly totals\<close>

text \<open>
  \<open>response.json()\<close> yields a Python object built from \<open>None\<close>, booleans, integers,
  floats, strings, lists and dictionaries with string keys. A dictionary is the list of
  its items.
\<close>

datatype json =
  JNull | JBool bool | JInt int | JFloat pyfloat | JStr pystr | JList "json list"
  | JDict "(pystr \<times> json) list"

text \<open>\<open>obj.get(key, default)\<close>: only a dictionary has the method.\<close>

definition json_get :: "json \<Rightarrow> pystr \<Rightarrow> json \<Rightarrow> exc + json" where
  "json_get obj k dflt =
     (case obj of
        JDict items \<Rightarrow> Inr (case map_of items k of Some v \<Rightarrow> v | None \<Rightarrow> dflt)
      | _ \<Rightarrow> Inl AttributeError)"

text \<open>The truth value of an object, as \<open>not chart_series\<close> tests it.\<close>

definition truthy :: "json \<Rightarrow> bool" where
  "truthy v =
     (case v of
        JNull \<Rightarrow> False
      | JBool b \<Rightarrow> b
      | JInt i \<Rightarrow> i \<noteq> 0
      | JFloat x \<Rightarrow> \<not> is_zero x
      | JStr t \<Rightarrow> t \<noteq> []
      | JList xs \<Rightarrow> xs \<noteq> []
      | JDict items \<Rightarrow> items \<noteq> [])"

text \<open>
  \<open>for tp in v\<close>: a list yields its elements, a string its characters, a dictionary its
  keys; nothing else can be iterated.
\<close>

definition json_iter :: "json \<Rightarrow> exc + json list" where
  "json_iter v =
     (case v of
        JList xs \<Rightarrow> Inr xs
      | JStr t \<Rightarrow> Inr (map (\<lambda>c. JStr [c]) t)
      | JDict items \<Rightarrow> Inr (map (\<lambda>kv. JStr (fst kv)) items)
      | _ \<Rightarrow> Inl TypeError)"

text \<open>
  \<open>float(price)\<close>. Reading a float from text is Python's own parser, taken here as the
  parameter \<open>float_of_text\<close>: \<open>Some x\<close> when the text reads as the float \<open>x\<close>,
  \<open>None\<close> when \<open>float\<close> raises \<open>ValueError\<close>. An integer that rounds beyond the largest
  double raises \<open>OverflowError\<close>; a list, a dictionary or \<open>None\<close> raises \<open>TypeError\<close>.
\<close>

definition py_float :: "(pystr \<Rightarrow> pyfloat option) \<Rightarrow> json \<Rightarrow> exc + pyfloat" where
  "py_float float_of_text v =
     (case v of
        JFloat x \<Rightarrow> Inr x
      | JInt i \<Rightarrow>
          (if 2 ^ 1024 - 2 ^ 970 \<le> \<bar>i\<bar> then Inl OverflowError else Inr (double_of (of_int i)))
      | JBool b \<Rightarrow> Inr (if b then Fin 1 else Fin 0)
      | JStr t \<Rightarrow> (case float_of_text t of Some x \<Rightarrow> Inr x | None \<Rightarrow> Inl ValueError)
      | _ \<Rightarrow> Inl TypeError)"

text \<open>
  The body of the loop over the time points of a series, on the state \<open>(total, found)\<close>.
  Only \<open>ValueError\<close> is caught.
\<close>

definition time_point_step ::
  "(pystr \<Rightarrow> pyfloat option) \<Rightarrow> pystr \<Rightarrow> pyfloat \<times> bool \<Rightarrow> json \<Rightarrow>
   exc + pyfloat \<times> bool" where
  "time_point_step float_of_text hour_str st tp =
     bind_exc (json_get tp (str ''name'') JNull) (\<lambda>name.
       if name = JStr hour_str
       then bind_exc (json_get tp (str ''priceWestDenmark'') JNull) (\<lambda>price.
              if price \<noteq> JNull
              then (case py_float float_of_text price of
                      Inr x \<Rightarrow> Inr (py_add (fst st) x, True)
                    | Inl ValueError \<Rightarrow> Inr st
                    | Inl e \<Rightarrow> Inl e)
              else Inr st)
       else Inr st)"

definition series_step ::
  "(pystr \<Rightarrow> pyfloat option) \<Rightarrow> pystr \<Rightarrow> pyfloat \<times> bool \<Rightarrow> json \<Rightarrow>
   exc + pyfloat \<times> bool" where
  "series_step float_of_text hour_str st series =
     bind_exc (json_get series (str ''timePoints'') (JList [])) (\<lambda>tps.
     bind_exc (json_iter tps) (\<lambda>items.
       fold_exc (time_point_step float_of_text hour_str) items st))"

text \<open>One turn of \<open>for hour_idx in range(24)\<close>, on the dictionary \<open>hourly_totals\<close>.\<close>

definition hour_step ::
  "(pystr \<Rightarrow> pyfloat option) \<Rightarrow> json list \<Rightarrow> price_map \<Rightarrow> nat \<Rightarrow> exc + price_map" where
  "hour_step float_of_text chart_series hourly_totals hour_idx =
     (let hour_str = fmt_02d (int hour_idx)
      in bind_exc (fold_exc (series_step float_of_text hour_str) chart_series (Fin 0, False))
           (\<lambda>st. if snd st then Inr (hourly_totals @ [(hour_str, py_round (fst st) 4)])
                 else Inr hourly_totals))"

text \<open>
  \<open>fetch_prices\<close> after a cache miss and a successful download, from the decoded response
  \<open>data\<close> on: the cache and the HTTP request are outside the model, and writing the cache
  does not change what is returned. \<open>None\<close> is Python's \<open>None\<close>.
\<close>

definition fetch_prices ::
  "(pystr \<Rightarrow> pyfloat option) \<Rightarrow> json \<Rightarrow> exc + price_map option" where
  "fetch_prices float_of_text data =
     bind_exc (json_get data (str ''chartSeries'') JNull) (\<lambda>chart_series.
       case chart_series of
         JList series \<Rightarrow>
           (if \<not> truthy chart_series then Inr None
            else bind_exc (fold_exc (hour_step float_of_text series) [0..<24] [])
                   (\<lambda>hourly_totals. if hourly_totals = [] then Inr None
                                     else Inr (Some hourly_totals)))
       | _ \<Rightarrow> Inr None)"

subsection \<open>The aggregation as the specification words it\<close>

text \<open>
  A payload is well shaped when it is a dictionary, every series of a list-valued
  \<open>chartSeries\<close> is a dictionary, the \<open>timePoints\<close> of a series, when present, is a list
  of dictionaries, and every price is \<open>null\<close>, a boolean, a float, a text or an integer
  within the range of the doubles.
\<close>

definition price_ok :: "json \<Rightarrow> bool" where
  "price_ok v =
     (case v of
        JList xs \<Rightarrow> False
      | JDict items \<Rightarrow> False
      | JInt i \<Rightarrow> \<bar>i\<bar> < 2 ^ 1024 - 2 ^ 970
      | _ \<Rightarrow> True)"

definition time_point_ok :: "json \<Rightarrow> bool" where
  "time_point_ok tp =
     (case tp of
        JDict items \<Rightarrow>
          (case map_of items (str ''priceWestDenmark'') of Some v \<Rightarrow> price_ok v | None \<Rightarrow> True)
      | _ \<Rightarrow> False)"

definition series_ok :: "json \<Rightarrow> bool" where
  "series_ok series =
     (case series of
        JDict items \<Rightarrow>
          (case map_of items (str ''timePoints'') of
             None \<Rightarrow> True
           | Some (JList tps) \<Rightarrow> list_all time_point_ok tps
           | Some _ \<Rightarrow> False)
      | _ \<Rightarrow> False)"

definition well_shaped :: "json \<Rightarrow> bool" where
  "well_shaped data =
     (case data of
        JDict items \<Rightarrow>
          (case map_of items (str ''chartSeries'') of
             Some (JList series) \<Rightarrow> list_all series_ok series
           | _ \<Rightarrow> True)
      | _ \<Rightarrow> False)"

text \<open>The time points of all series, in the order of the series and within each series.\<close>

definition time_points_of :: "json \<Rightarrow> json list" where
  "time_points_of series =
     (case series of
        JDict items \<Rightarrow>
          (case map_of items (str ''timePoints'') of Some (JList tps) \<Rightarrow> tps | _ \<Rightarrow> [])
      | _ \<Rightarrow> [])"

text \<open>
  The parseable price a time point carries for an hour label, if it carries one: the time
  point bears the label, its price is present and reads as a number.
\<close>

definition parseable_price ::
  "(pystr \<Rightarrow> pyfloat option) \<Rightarrow> pystr \<Rightarrow> json \<Rightarrow> pyfloat option" where
  "parseable_price float_of_text hour_str tp =
     (case tp of
        JDict items \<Rightarrow>
          (if map_of items (str ''name'') = Some (JStr hour_str)
           then (case map_of items (str ''priceWestDenmark'') of
                   None \<Rightarrow> None
                 | Some v \<Rightarrow>
                     (case py_float float_of_text v of Inr x \<Rightarrow> Some x | Inl e \<Rightarrow> None))
           else None)
      | _ \<Rightarrow> None)"

definition prices_for ::
  "(pystr \<Rightarrow> pyfloat option) \<Rightarrow> json list \<Rightarrow> pystr \<Rightarrow> pyfloat list" where
  "prices_for float_of_text series hour_str =
     concat (map (\<lambda>tp. case parseable_price float_of_text hour_str tp of
                          None \<Rightarrow> [] | Some x \<Rightarrow> [x])
               (concat (map time_points_of series)))"

definition hour_labels :: "pystr list" where
  "hour_labels = map (\<lambda>h. fmt_02d (int h)) [0..<24]"

definition hourly_sums :: "(pystr \<Rightarrow> pyfloat option) \<Rightarrow> json list \<Rightarrow> price_map" where
  "hourly_sums float_of_text series =
     map (\<lambda>h. (h, py_round (add_up (prices_for float_of_text series h)) 4))
       (filter (\<lambda>h. prices_for float_of_text series h \<noteq> []) hour_labels)"

definition chart_series_of :: "json \<Rightarrow> json list option" where
  "chart_series_of data =
     (case data of
        JDict items \<Rightarrow>
          (case map_of items (str ''chartSeries'') of Some (JList series) \<Rightarrow> Some series
           | _ \<Rightarrow> None)
      | _ \<Rightarrow> None)"

section \<open>Facts about digits and trimming\<close>

lemma dec_digits: "c \<in> set (dec n) \<Longrightarrow> is_digit c"
proof (induction n arbitrary: c rule: dec.induct)
  case (1 n)
  show ?case
  proof (cases "n < 10")
    case True
    then show ?thesis using "1.prems" by (simp add: dec.simps [of n] is_digit_def)
  next
    case False
    then have "c \<in> set (dec (n div 10)) \<or> c = 48 + n mod 10"
      using "1.prems" by (auto simp add: dec.simps [of n])
    then show ?thesis
      using "1.IH" [of c] False by (auto simp: is_digit_def)
  qed
qed

lemma dec_nonempty: "dec n \<noteq> []"
  by (simp add: dec.simps [of n])

lemma length_dec: "0 < k \<Longrightarrow> n < 10 ^ k \<Longrightarrow> length (dec n) \<le> k"
proof (induction k arbitrary: n)
  case 0
  then show ?case by simp
next
  case (Suc k)
  show ?case
  proof (cases "n < 10")
    case True
    then show ?thesis by (simp add: dec.simps [of n])
  next
    case False
    then have "0 < k" using Suc.prems by (cases k) auto
    moreover have "n div 10 < 10 ^ k" using Suc.prems by (simp add: less_mult_imp_div_less mult.commute)
    ultimately have "length (dec (n div 10)) \<le> k" by (rule Suc.IH)
    then show ?thesis using False by (simp add: dec.simps [of n])
  qed
qed

lemma digits_value_append:
  "digits_value (xs @ [c]) = (if c = 95 then digits_value xs else 10 * digits_value xs + (c - 48))"
  by (simp add: digits_value_def)

lemma digits_value_dec: "digits_value (dec n) = n"
proof (induction n rule: dec.induct)
  case (1 n)
  show ?case
  proof (cases "n < 10")
    case True
    then show ?thesis by (simp add: dec.simps [of n] digits_value_def)
  next
    case False
    have "48 + n mod 10 \<noteq> 95" by presburger
    then show ?thesis using "1.IH" False by (simp add: dec.simps [of n] digits_value_append)
  qed
qed

lemma digits_value_digits_append:
  "list_all is_digit ys \<Longrightarrow> digits_value (xs @ ys) = digits_value xs * 10 ^ length ys + digits_value ys"
proof (induction ys rule: rev_induct)
  case Nil
  then show ?case by (simp add: digits_value_def)
next
  case (snoc y ys)
  then have "y \<noteq> 95" by (auto simp: is_digit_def)
  then show ?case
    using snoc digits_value_append [of "xs @ ys" y] digits_value_append [of ys y]
    by (simp add: algebra_simps)
qed

lemma digits_value_zeros: "digits_value (replicate k 48 @ ys) = digits_value ys"
proof -
  have "foldl (\<lambda>acc c. if c = 95 then acc else 10 * acc + (c - 48)) 0 (replicate k 48) = (0::nat)"
    by (induction k) simp_all
  then show ?thesis by (simp add: digits_value_def)
qed

lemma rstrip_stop: "a \<noteq> c \<Longrightarrow> rstrip c (xs @ a # ys) = xs @ a # rstrip c ys"
  by (simp add: rstrip_def dropWhile_append)

lemma rstrip_Cons: "a \<noteq> c \<Longrightarrow> rstrip c (a # ys) = a # rstrip c ys"
  using rstrip_stop [of a c "[]" ys] by simp

lemma rstrip_id: "s = [] \<or> last s \<noteq> c \<Longrightarrow> rstrip c s = s"
  by (cases s rule: rev_cases) (simp_all add: rstrip_def)

lemma rstrip_last: "rstrip c s \<noteq> [] \<Longrightarrow> last (rstrip c s) \<noteq> c"
proof (induction s rule: rev_induct)
  case Nil
  then show ?case by (simp add: rstrip_def)
next
  case (snoc x xs)
  then show ?case by (cases "x = c") (simp_all add: rstrip_def)
qed

lemma set_rstrip: "set (rstrip c s) \<subseteq> set s"
  by (metis rstrip_def set_dropWhileD set_rev subsetI)

lemma rstrip_append_all: "rstrip c (xs @ ys) = (if rstrip c ys = [] then rstrip c xs else xs @ rstrip c ys)"
  by (simp add: rstrip_def dropWhile_append)

lemma ranges_loop_runs:
  "ranges_loop (map (\<lambda>(s, e). hour_range s e) acc) s e hs =
   map (\<lambda>(s, e). hour_range s e) (runs_loop acc s e hs)"
  by (induction hs arbitrary: acc s e) (simp_all, metis (no_types, lifting) list.simps(8,9) map_append old.prod.case)

lemma runs_loop_acc: "runs_loop acc s e hs = acc @ runs_loop [] s e hs"
proof (induction hs arbitrary: acc s e)
  case Nil
  then show ?case by simp
next
  case (Cons h hs)
  show ?case
    using Cons.IH [of acc s h] Cons.IH [of "acc @ [(s, e)]" h h] Cons.IH [of "[(s, e)]" h h]
    by auto
qed

lemma runs_loop_hd: "fst (hd (runs_loop [] s e hs)) = s"
proof (induction hs arbitrary: s e)
  case Nil
  then show ?case by simp
next
  case (Cons h hs)
  show ?case
    using Cons.IH [of s h] runs_loop_acc [of "[(s, e)]" h h hs] by auto
qed

lemma runs_loop_nonempty: "runs_loop acc s e hs \<noteq> []"
  by (induction hs arbitrary: acc s e) simp_all

lemma upto_snoc: "s \<le> e \<Longrightarrow> [s..e] @ [e + 1] = [s..e + 1]"
  by (simp add: upto_rec2)


lemma runs_loop_spec:
  "s \<le> e \<Longrightarrow> sorted_wrt (<) (e # hs) \<Longrightarrow>
   concat (map (\<lambda>(a, b). [a..b]) (runs_loop [] s e hs)) = [s..e] @ hs \<and>
   (\<forall>(a, b) \<in> set (runs_loop [] s e hs). a \<le> b) \<and>
   sorted_wrt (\<lambda>(a, b) (c, d). b + 1 < c) (runs_loop [] s e hs)"
proof (induction hs arbitrary: s e)
  case Nil
  then show ?case by simp
next
  case (Cons h hs)
  show ?case
  proof (cases "h = e + 1")
    case True
    have "s \<le> h" using Cons.prems True by simp
    moreover have "sorted_wrt (<) (h # hs)" using Cons.prems by simp
    ultimately have IH: "concat (map (\<lambda>(a, b). [a..b]) (runs_loop [] s h hs)) = [s..h] @ hs \<and>
      (\<forall>(a, b) \<in> set (runs_loop [] s h hs). a \<le> b) \<and>
      sorted_wrt (\<lambda>(a, b) (c, d). b + 1 < c) (runs_loop [] s h hs)"
      by (rule Cons.IH)
    have "[s..h] = [s..e] @ [h]" using True Cons.prems(1) upto_snoc [of s e] by simp
    then show ?thesis using IH True by simp
  next
    case False
    have lt: "e + 1 < h" using Cons.prems False by simp
    have "sorted_wrt (<) (h # hs)" using Cons.prems by simp
    then have IH: "concat (map (\<lambda>(a, b). [a..b]) (runs_loop [] h h hs)) = [h..h] @ hs \<and>
      (\<forall>(a, b) \<in> set (runs_loop [] h h hs). a \<le> b) \<and>
      sorted_wrt (\<lambda>(a, b) (c, d). b + 1 < c) (runs_loop [] h h hs)"
      using Cons.IH [of h h] by simp
    have eq: "runs_loop [] s e (h # hs) = (s, e) # runs_loop [] h h hs"
      using False runs_loop_acc [of "[(s, e)]" h h hs] by simp
    have first: "\<forall>(c, d) \<in> set (runs_loop [] h h hs). e + 1 < c"
    proof -
      obtain r rs where rs: "runs_loop [] h h hs = r # rs"
        using runs_loop_nonempty [of "[]" h h hs] by (cases "runs_loop [] h h hs") auto
      have "fst r = h" using runs_loop_hd [of h h hs] rs by simp
      moreover have "sorted_wrt (\<lambda>(a, b) (c, d). b + 1 < c) (r # rs)" "\<forall>(a, b) \<in> set (r # rs). a \<le> b"
        using IH rs by simp_all
      ultimately show ?thesis using lt rs by (fastforce)
    qed
    show ?thesis using IH eq first Cons.prems(1) by auto
  qed
qed

lemma map_exc_length: "map_exc f xs = Inr ys \<Longrightarrow> length ys = length xs"
  by (induction xs arbitrary: ys) (auto split: sum.splits)

lemma length_zero_pad: "length s \<le> n \<Longrightarrow> length (zero_pad n s) = n"
  by (simp add: zero_pad_def)

lemma fixed_digits_shape:
  fixes a :: rat and n :: nat and neg :: bool
  defines "S \<equiv> nat (round_half_even (a * 10 ^ n))"
  defines "F \<equiv> (if n = 0 then [] else zero_pad n (dec (S mod 10 ^ n)))"
  shows "fixed_digits neg a n =
           (if neg then [45] else []) @ dec (S div 10 ^ n) @ (if n = 0 then [] else 46 # F)"
    and "list_all is_digit F" and "length F = n"
    and "digits_value (dec (S div 10 ^ n) @ F) = S"
    and "trim_zeros (fixed_digits neg a n) =
           (if neg then [45] else []) @ dec (S div 10 ^ n) @
           (if rstrip 48 F = [] then [] else 46 # rstrip 48 F)"
proof -
  let ?sign = "(if neg then [45] else []) :: pystr"
  let ?ip = "dec (S div 10 ^ n)"
  show fmt: "fixed_digits neg a n = ?sign @ ?ip @ (if n = 0 then [] else 46 # F)"
    by (simp add: fixed_digits_def S_def F_def Let_def str_def)
  show digs: "list_all is_digit F"
    by (auto simp: F_def zero_pad_def list_all_iff is_digit_def dest: dec_digits)
  show len: "length F = n"
  proof (cases "n = 0")
    case True
    then show ?thesis by (simp add: F_def)
  next
    case False
    then have "length (dec (S mod 10 ^ n)) \<le> n" by (intro length_dec) simp_all
    then show ?thesis using False by (simp add: F_def length_zero_pad)
  qed
  have valF: "digits_value F = S mod 10 ^ n"
  proof (cases "n = 0")
    case True
    then show ?thesis by (simp add: F_def digits_value_def)
  next
    case False
    then show ?thesis by (simp add: F_def zero_pad_def digits_value_zeros digits_value_dec)
  qed
  show "digits_value (?ip @ F) = S"
    using digits_value_digits_append [OF digs, of ?ip] len valF div_mult_mod_eq [of S "10 ^ n"]
    by (simp only: digits_value_dec)
  have ip_digit: "\<And>c. c \<in> set ?ip \<Longrightarrow> is_digit c" by (rule dec_digits)
  have ip_last: "last ?ip \<noteq> 46"
    using ip_digit [of "last ?ip"] dec_nonempty [of "S div 10 ^ n"] by (auto simp: is_digit_def)
  have head_last: "last (?sign @ ?ip) \<noteq> 46" "?sign @ ?ip \<noteq> []"
    using ip_last dec_nonempty [of "S div 10 ^ n"] by simp_all
  have no_sep: "46 \<notin> set (?sign @ ?ip)"
    using ip_digit [of 46] by (auto simp: is_digit_def)
  show "trim_zeros (fixed_digits neg a n) = ?sign @ ?ip @ (if rstrip 48 F = [] then [] else 46 # rstrip 48 F)"
  proof (cases "n = 0")
    case True
    then have "F = []" by (simp add: F_def)
    then show ?thesis using True fmt no_sep by (simp add: trim_zeros_def rstrip_def)
  next
    case False
    have f: "fixed_digits neg a n = (?sign @ ?ip) @ 46 # F" using fmt False by simp
    have r0: "rstrip 48 (fixed_digits neg a n) = (?sign @ ?ip) @ 46 # rstrip 48 F"
      unfolding f by (rule rstrip_stop) simp
    have fp: "trim_zeros (fixed_digits neg a n) = rstrip 46 ((?sign @ ?ip) @ 46 # rstrip 48 F)"
      using r0 f by (simp add: trim_zeros_def)
    show ?thesis
    proof (cases "rstrip 48 F = []")
      case True
      have "rstrip 46 ((?sign @ ?ip) @ [46]) = rstrip 46 (?sign @ ?ip)"
        by (simp add: rstrip_def)
      also have "\<dots> = ?sign @ ?ip" using head_last by (intro rstrip_id) simp
      finally show ?thesis using fp True by simp
    next
      case False
      have "last (rstrip 48 F) \<in> set F" using False set_rstrip [of 48 F] last_in_set by blast
      then have "is_digit (last (rstrip 48 F))" using digs by (simp add: list_all_iff)
      then have "last ((?sign @ ?ip) @ 46 # rstrip 48 F) \<noteq> 46"
        using False by (auto simp: is_digit_def)
      then have "rstrip 46 ((?sign @ ?ip) @ 46 # rstrip 48 F) = (?sign @ ?ip) @ 46 # rstrip 48 F"
        by (intro rstrip_id) simp
      then show ?thesis using fp False by simp
    qed
  qed
qed





lemma py_format_f_finite:
  "is_finite x \<Longrightarrow> 0 \<le> n \<Longrightarrow> n \<le> 2147483647 \<Longrightarrow>
   py_format_f x n = Inr (fixed_digits (negative x) \<bar>val x\<bar> (nat n))"
  by (cases x) (simp_all add: py_format_f_def)

lemma format_price_finite:
  "is_finite x \<Longrightarrow> 0 \<le> n \<Longrightarrow> n \<le> 2147483647 \<Longrightarrow>
   format_price x n = Inr (trim_zeros (fixed_digits (negative x) \<bar>val x\<bar> (nat n)))"
  by (simp add: format_price_def py_format_f_finite bind_exc_def)

lemma format_price_precision:
  "n < 0 \<or> 2147483647 < n \<Longrightarrow> format_price x n = Inl ValueError"
  by (auto simp: format_price_def py_format_f_def bind_exc_def)


lemma format_price_not_finite:
  "0 \<le> n \<Longrightarrow> n \<le> 2147483647 \<Longrightarrow>
   format_price PInf n = Inr (str ''inf'') \<and> format_price NInf n = Inr (str ''-inf'') \<and>
   format_price NaN n = Inr (str ''nan'')"
  by (simp add: format_price_def py_format_f_def bind_exc_def trim_zeros_def str_def)

lemma trim_fixed_digits_sign:
  "trim_zeros (fixed_digits True a n) = str ''-'' @ trim_zeros (fixed_digits False a n)"
  using fixed_digits_shape(5) [where a = a and n = n and neg = True]
    fixed_digits_shape(5) [where a = a and n = n and neg = False]
  by (simp add: str_def)

text \<open>Values of the formatter, computed once.\<close>

lemma format_price_values:
  shows "double_of (233 / 100) = Fin (1311673391471657 / 562949953421312)"
    and "double_of (22633 / 10000) = Fin (2548249259156911 / 1125899906842624)"
    and "format_price (Fin 2) 4 = Inr (str ''2'')"
    and "format_price (Fin (1311673391471657 / 562949953421312)) 4 = Inr (str ''2.33'')"
    and "format_price (Fin (2548249259156911 / 1125899906842624)) 4 = Inr (str ''2.2633'')"
    and "format_price (Fin 0) 4 = Inr (str ''0'')"
    and "format_price NegZero 4 = Inr (str ''-0'')"
    and "py_format_f (Fin (- (5 / 4))) 3 = Inr (str ''-1.250'')"
    and "format_price (Fin (- (5 / 4))) 3 = Inr (str ''-1.25'')"
    and "nat (round_half_even (\<bar>val (Fin (- (5 / 4)))\<bar> * 10 ^ nat 3)) = 1250"
    and "format_price (Fin (- (3 / 2))) 4 = Inr (str ''-1.5'')"
    and "format_price (py_abs (Fin (- (3 / 2)))) 4 = Inr (str ''1.5'')"
    and "py_format_f PInf 4 = Inr (str ''inf'')"
    and "format_price PInf 4 = Inr (str ''inf'')"
    and "format_price NInf 4 = Inr (str ''-inf'')"
    and "format_price NaN 4 = Inr (str ''nan'')"
    and "format_price (Fin 2) (- 1) = Inl ValueError"
proof -
  have all: "(double_of (233 / 100) = Fin (1311673391471657 / 562949953421312)) \<and>
      (double_of (22633 / 10000) = Fin (2548249259156911 / 1125899906842624)) \<and>
      (format_price (Fin 2) 4 = Inr (str ''2'')) \<and>
      (format_price (Fin (1311673391471657 / 562949953421312)) 4 = Inr (str ''2.33'')) \<and>
      (format_price (Fin (2548249259156911 / 1125899906842624)) 4 = Inr (str ''2.2633'')) \<and>
      (format_price (Fin 0) 4 = Inr (str ''0'')) \<and>
      (format_price NegZero 4 = Inr (str ''-0'')) \<and>
      (py_format_f (Fin (- (5 / 4))) 3 = Inr (str ''-1.250'')) \<and>
      (format_price (Fin (- (5 / 4))) 3 = Inr (str ''-1.25'')) \<and>
      (nat (round_half_even (\<bar>val (Fin (- (5 / 4)))\<bar> * 10 ^ nat 3)) = 1250) \<and>
      (format_price (Fin (- (3 / 2))) 4 = Inr (str ''-1.5'')) \<and>
      (format_price (py_abs (Fin (- (3 / 2)))) 4 = Inr (str ''1.5'')) \<and>
      (py_format_f PInf 4 = Inr (str ''inf'')) \<and>
      (format_price PInf 4 = Inr (str ''inf'')) \<and>
      (format_price NInf 4 = Inr (str ''-inf'')) \<and>
      (format_price NaN 4 = Inr (str ''nan'')) \<and>
      (format_price (Fin 2) (- 1) = Inl ValueError)"
    by code_simp
  show "double_of (233 / 100) = Fin (1311673391471657 / 562949953421312)"
    by (rule all [THEN conjunct1])
  show "double_of (22633 / 10000) = Fin (2548249259156911 / 1125899906842624)"
    by (rule all [THEN conjunct2, THEN conjunct1])
  show "format_price (Fin 2) 4 = Inr (str ''2'')"
    by (rule all [THEN conjunct2, THEN conjunct2, THEN conjunct1])
  show "format_price (Fin (1311673391471657 / 562949953421312)) 4 = Inr (str ''2.33'')"
    by (rule all [THEN conjunct2, THEN conjunct2, THEN conjunct2, THEN conjunct1])
  show "format_price (Fin (2548249259156911 / 1125899906842624)) 4 = Inr (str ''2.2633'')"
    by (rule all [THEN conjunct2, THEN conjunct2, THEN conjunct2, THEN conjunct2, THEN conjunct1])
  show "format_price (Fin 0) 4 = Inr (str ''0'')"
    by (rule all [THEN conjunct2, THEN conjunct2, THEN conjunct2, THEN conjunct2, THEN conjunct2, THEN conjunct1])
  show "format_price NegZero 4 = Inr (str ''-0'')"
    by (rule all [THEN conjunct2, THEN conjunct2, THEN conjunct2, THEN conjunct2, THEN conjunct2, THEN conjunct2, THEN conjunct1])
  show "py_format_f (Fin (- (5 / 4))) 3 = Inr (str ''-1.250'')"
    by (rule all [THEN conjunct2, THEN conjunct2, THEN conjunct2, THEN conjunct2, THEN conjunct2, THEN conjunct2, THEN conjunct2, THEN conjunct1])
  show "format_price (Fin (- (5 / 4))) 3 = Inr (str ''-1.25'')"
    by (rule all [THEN conjunct2, THEN conjunct2, THEN conjunct2, THEN conjunct2, THEN conjunct2, THEN conjunct2, THEN conjunct2, THEN conjunct2, THEN conjunct1])
  show "nat (round_half_even (\<bar>val (Fin (- (5 / 4)))\<bar> * 10 ^ nat 3)) = 1250"
    by (rule all [THEN conjunct2, THEN conjunct2, THEN conjunct2, THEN conjunct2, THEN conjunct2, THEN conjunct2, THEN conjunct2, THEN conjunct2, THEN conjunct2, THEN conjunct1])
  show "format_price (Fin (- (3 / 2))) 4 = Inr (str ''-1.5'')"
    by (rule all [THEN conjunct2, THEN conjunct2, THEN conjunct2, THEN conjunct2, THEN conjunct2, THEN conjunct2, THEN conjunct2, THEN conjunct2, THEN conjunct2, THEN conjunct2, THEN conjunct1])
  show "format_price (py_abs (Fin (- (3 / 2)))) 4 = Inr (str ''1.5'')"
    by (rule all [THEN conjunct2, THEN conjunct2, THEN conjunct2, THEN conjunct2, THEN conjunct2, THEN conjunct2, THEN conjunct2, THEN conjunct2, THEN conjunct2, THEN conjunct2, THEN conjunct2, THEN conjunct1])
  show "py_format_f PInf 4 = Inr (str ''inf'')"
    by (rule all [THEN conjunct2, THEN conjunct2, THEN conjunct2, THEN conjunct2, THEN conjunct2, THEN conjunct2, THEN conjunct2, THEN conjunct2, THEN conjunct2, THEN conjunct2, THEN conjunct2, THEN conjunct2, THEN conjunct1])
  show "format_price PInf 4 = Inr (str ''inf'')"
    by (rule all [THEN conjunct2, THEN conjunct2, THEN conjunct2, THEN conjunct2, THEN conjunct2, THEN conjunct2, THEN conjunct2, THEN conjunct2, THEN conjunct2, THEN conjunct2, THEN conjunct2, THEN conjunct2, THEN conjunct2, THEN conjunct1])
  show "format_price NInf 4 = Inr (str ''-inf'')"
    by (rule all [THEN conjunct2, THEN conjunct2, THEN conjunct2, THEN conjunct2, THEN conjunct2, THEN conjunct2, THEN conjunct2, THEN conjunct2, THEN conjunct2, THEN conjunct2, THEN conjunct2, THEN conjunct2, THEN conjunct2, THEN conjunct2, THEN conjunct1])
  show "format_price NaN 4 = Inr (str ''nan'')"
    by (rule all [THEN conjunct2, THEN conjunct2, THEN conjunct2, THEN conjunct2, THEN conjunct2, THEN conjunct2, THEN conjunct2, THEN conjunct2, THEN conjunct2, THEN conjunct2, THEN conjunct2, THEN conjunct2, THEN conjunct2, THEN conjunct2, THEN conjunct2, THEN conjunct1])
  show "format_price (Fin 2) (- 1) = Inl ValueError"
    by (rule all [THEN conjunct2, THEN conjunct2, THEN conjunct2, THEN conjunct2, THEN conjunct2, THEN conjunct2, THEN conjunct2, THEN conjunct2, THEN conjunct2, THEN conjunct2, THEN conjunct2, THEN conjunct2, THEN conjunct2, THEN conjunct2, THEN conjunct2, THEN conjunct2])
qed

subsection \<open>Hours without a common entry\<close>

lemma fmt_02d_in_hour_labels: "hour \<in> set [0..<24] \<Longrightarrow> fmt_02d (int hour) \<in> set hour_labels"
  unfolding hour_labels_def by (rule imageI [of hour "set [0..<24]" "\<lambda>h. fmt_02d (int h)", folded set_map])

lemma foldl_unchanged: "(\<And>x. x \<in> set xs \<Longrightarrow> f s x = s) \<Longrightarrow> foldl f s xs = s"
  by (induction xs) simp_all

lemma collect_diffs_disjoint:
  assumes "\<forall>h \<in> set hour_labels. map_of today h = None \<or> map_of yesterday h = None"
  shows "collect_diffs today yesterday = \<lparr>diffs = [], up = 0, down = 0, stable = 0\<rparr>"
  unfolding collect_diffs_def
proof (rule foldl_unchanged)
  fix hour assume "hour \<in> set [0..<24]"
  then have "fmt_02d (int hour) \<in> set hour_labels" by (rule fmt_02d_in_hour_labels)
  then have "map_of today (fmt_02d (int hour)) = None \<or> map_of yesterday (fmt_02d (int hour)) = None"
    by (rule assms [rule_format])
  then show "diff_step today yesterday \<lparr>diffs = [], up = 0, down = 0, stable = 0\<rparr> hour =
      \<lparr>diffs = [], up = 0, down = 0, stable = 0\<rparr>"
    by (auto simp: diff_step_def Let_def split: option.splits)
qed

section \<open>The hour-range compressor\<close>

text \<open>
  C4. For every set of hour labels (a list of labels that \<open>int\<close> reads, no hour twice)
  \<open>_format_hour_ranges\<close> returns the runs of the ascending hours joined by \<open>", "\<close>: the
  runs, laid end to end, are exactly the sorted hours; each run is a stretch of consecutive
  hours; between two runs at least one hour is missing, so every run is maximal. A run of
  one hour is rendered \<open>HH:00\<close>, a longer one \<open>HH:00-HH:00\<close> with the end hour
  \<open>(end + 1) mod 24\<close>. The empty input gives the empty string, and the labels 00, 01, 02,
  05 give \<open>00:00-03:00, 05:00\<close>, 23 alone gives \<open>23:00\<close>, 22 and 23 give
  \<open>22:00-00:00\<close>.
\<close>

theorem format_hour_ranges_merges_runs:
  "(\<forall>hours ints. map_exc py_int hours = Inr ints \<and> distinct ints \<longrightarrow>
      (\<exists>runs.
         format_hour_ranges hours =
           Inr (py_join (str '', '')
                  (map (\<lambda>(s, e). if s = e then fmt_02d s @ str '':00''
                                   else fmt_02d s @ str '':00-'' @ fmt_02d ((e + 1) mod 24) @
                                        str '':00'') runs)) \<and>
         concat (map (\<lambda>(s, e). [s..e]) runs) = sort ints \<and>
         (\<forall>(s, e) \<in> set runs. s \<le> e) \<and>
         sorted_wrt (\<lambda>(s, e) (s', e'). e + 1 < s') runs)) \<and>
   format_hour_ranges [] = Inr [] \<and>
   format_hour_ranges [str ''00'', str ''01'', str ''02'', str ''05''] =
     Inr (str ''00:00-03:00, 05:00'') \<and>
   format_hour_ranges [str ''23''] = Inr (str ''23:00'') \<and>
   format_hour_ranges [str ''22'', str ''23''] = Inr (str ''22:00-00:00'')"
proof -
  have render: "(\<lambda>(s, e). if s = e then fmt_02d s @ str '':00''
                  else fmt_02d s @ str '':00-'' @ fmt_02d ((e + 1) mod 24) @ str '':00'') =
                (\<lambda>(s, e). hour_range s e)"
    by (simp add: hour_range_def fun_eq_iff)
  have general: "\<exists>runs.
         format_hour_ranges hours =
           Inr (py_join (str '', '') (map (\<lambda>(s, e). hour_range s e) runs)) \<and>
         concat (map (\<lambda>(s, e). [s..e]) runs) = sort ints \<and>
         (\<forall>(s, e) \<in> set runs. s \<le> e) \<and>
         sorted_wrt (\<lambda>(s, e) (s', e'). e + 1 < s') runs"
    if parse: "map_exc py_int hours = Inr ints" and dist: "distinct ints" for hours ints
  proof (cases "hours = []")
    case True
    then have "ints = []" using parse by simp
    then show ?thesis using True
      by (intro exI [of _ "[]"]) (simp add: format_hour_ranges_def)
  next
    case False
    then have "ints \<noteq> []" using map_exc_length [OF parse] by auto
    then have "sort ints \<noteq> []" by (metis length_sort length_0_conv)
    then obtain x xs where xs: "sort ints = x # xs" by (cases "sort ints") auto
    have "sorted_wrt (<) (sort ints)" using dist by (simp add: strict_sorted_iff)
    then have strict: "sorted_wrt (<) (x # xs)" using xs by simp
    have spec: "concat (map (\<lambda>(a, b). [a..b]) (runs_loop [] x x xs)) = [x..x] @ xs \<and>
        (\<forall>(a, b) \<in> set (runs_loop [] x x xs). a \<le> b) \<and>
        sorted_wrt (\<lambda>(a, b) (c, d). b + 1 < c) (runs_loop [] x x xs)"
      using runs_loop_spec [of x x xs] strict by simp
    have "format_hour_ranges hours =
          Inr (py_join (str '', '') (map (\<lambda>(s, e). hour_range s e) (runs_loop [] x x xs)))"
      using False parse xs ranges_loop_runs [of "[]" x x xs]
      by (simp add: format_hour_ranges_def)
    then show ?thesis using spec xs by (intro exI [of _ "runs_loop [] x x xs"]) simp
  qed
  have e0: "format_hour_ranges [] = Inr []" by (simp add: format_hour_ranges_def)
  have e1: "format_hour_ranges [str ''00'', str ''01'', str ''02'', str ''05''] =
     Inr (str ''00:00-03:00, 05:00'')" by code_simp
  have e2: "format_hour_ranges [str ''23''] = Inr (str ''23:00'')" by code_simp
  have e3: "format_hour_ranges [str ''22'', str ''23''] = Inr (str ''22:00-00:00'')" by code_simp
  show ?thesis unfolding render using general e0 e1 e2 e3 by blast
qed

text \<open>The theorem at the labels 02, 00, 05, 01, given out of order.\<close>

theorem format_hour_ranges_merges_runs_witness:
  "map_exc py_int [str ''02'', str ''00'', str ''05'', str ''01''] = Inr [2, 0, 5, 1] \<and>
   distinct [2, 0, 5, 1 :: int] \<and>
   (\<exists>runs.
      format_hour_ranges [str ''02'', str ''00'', str ''05'', str ''01''] =
        Inr (py_join (str '', '')
               (map (\<lambda>(s, e). if s = e then fmt_02d s @ str '':00''
                                else fmt_02d s @ str '':00-'' @ fmt_02d ((e + 1) mod 24) @
                                     str '':00'') runs)) \<and>
      concat (map (\<lambda>(s, e). [s..e]) runs) = sort [2, 0, 5, 1] \<and>
      (\<forall>(s, e) \<in> set runs. s \<le> e) \<and>
      sorted_wrt (\<lambda>(s, e) (s', e'). e + 1 < s') runs) \<and>
   format_hour_ranges [str ''02'', str ''00'', str ''05'', str ''01''] =
     Inr (str ''00:00-03:00, 05:00'')"
proof -
  have h1: "map_exc py_int [str ''02'', str ''00'', str ''05'', str ''01''] = Inr [2, 0, 5, 1]"
    by code_simp
  have h2: "distinct [2, 0, 5, 1 :: int]" by simp
  have h3: "format_hour_ranges [str ''02'', str ''00'', str ''05'', str ''01''] =
     Inr (str ''00:00-03:00, 05:00'')" by code_simp
  show ?thesis using format_hour_ranges_merges_runs h1 h2 h3 by blast
qed

section \<open>The price formatter\<close>




text \<open>
  C6, as the specification states it, fails: for the negative value -1.5 \<open>format_price\<close>
  returns \<open>-1.5\<close>, not the \<open>1.5\<close> it returns for the magnitude.
\<close>

theorem format_price_negative_counterexample:
  "format_price (Fin (- (3 / 2))) 4 = Inr (str ''-1.5'') \<and>
   format_price (py_abs (Fin (- (3 / 2)))) 4 = Inr (str ''1.5'') \<and>
   format_price (Fin (- (3 / 2))) 4 \<noteq> format_price (py_abs (Fin (- (3 / 2)))) 4"
  unfolding format_price_values by (simp add: str_def)

text \<open>
  C6, amended. For every input value with the sign bit set (a negative number, negative
  infinity or negative zero) and every precision, \<open>format_price\<close> returns a minus sign
  followed by the text it returns for the magnitude, and raises when it raises for the
  magnitude: the sign is kept, and a caller that wants the bare magnitude passes the absolute
  value, as the comparison rows do.
\<close>

theorem format_price_negative_keeps_sign:
  "\<forall>x n. negative x \<longrightarrow>
     format_price x n = bind_exc (format_price (py_abs x) n) (\<lambda>s. Inr (str ''-'' @ s))"
proof (intro allI impI)
  fix x :: pyfloat and n :: int
  assume neg: "negative x"
  show "format_price x n = bind_exc (format_price (py_abs x) n) (\<lambda>s. Inr (str ''-'' @ s))"
  proof (cases "n < 0 \<or> 2147483647 < n")
    case True
    then show ?thesis by (simp add: format_price_precision bind_exc_def)
  next
    case False
    then have r: "0 \<le> n" "n \<le> 2147483647" by simp_all
    show ?thesis
    proof (cases x)
      case (Fin q)
      then have "q < 0" using neg by simp
      then show ?thesis
        using Fin r trim_fixed_digits_sign [of "\<bar>q\<bar>" "nat n"]
        by (simp add: format_price_finite py_abs_def bind_exc_def)
    next
      case NegZero
      then show ?thesis
        using r trim_fixed_digits_sign [of 0 "nat n"]
        by (simp add: format_price_finite py_abs_def bind_exc_def)
    next
      case NInf
      then show ?thesis
        using r format_price_not_finite [of n] by (simp add: py_abs_def bind_exc_def str_def)
    next
      case PInf
      then show ?thesis using neg by simp
    next
      case NaN
      then show ?thesis using neg by simp
    qed
  qed
qed

text \<open>The theorem at the value -1.5.\<close>

theorem format_price_negative_keeps_sign_witness:
  "negative (Fin (- (3 / 2))) \<and>
   format_price (Fin (- (3 / 2))) 4 =
     bind_exc (format_price (py_abs (Fin (- (3 / 2)))) 4) (\<lambda>s. Inr (str ''-'' @ s)) \<and>
   format_price (py_abs (Fin (- (3 / 2)))) 4 = Inr (str ''1.5'') \<and>
   format_price (Fin (- (3 / 2))) 4 = Inr (str ''-1.5'')"
proof -
  have b: "negative (Fin (- (3 / 2)))" by simp
  have c: "format_price (Fin (- (3 / 2))) 4 =
      bind_exc (format_price (py_abs (Fin (- (3 / 2)))) 4) (\<lambda>s. Inr (str ''-'' @ s))"
    using format_price_negative_keeps_sign [rule_format, OF b] .
  have d: "format_price (py_abs (Fin (- (3 / 2)))) 4 = Inr (str ''1.5'') \<and>
      format_price (Fin (- (3 / 2))) 4 = Inr (str ''-1.5'')"
    by (intro conjI format_price_values)
  show ?thesis using b c d by (intro conjI) simp_all
qed

section \<open>Prices that do not read as numbers\<close>

text \<open>
  C8. The specification says that a price which is present but does not read as a number is
  skipped and never makes the aggregation fail, whatever its type. The code does so for a
  text that \<open>float\<close> rejects (the second payload below: the price \<open>"abc"\<close> of hour 00 is
  skipped and hour 01 is returned), but a price that is a list makes \<open>float\<close> raise
  \<open>TypeError\<close>, which the handler for \<open>ValueError\<close> does not catch: the exception leaves
  \<open>fetch_prices\<close> (the first payload).
\<close>

theorem fetch_prices_non_numeric_price_raises:
  "fetch_prices float_of_text
     (JDict [(str ''chartSeries'',
        JList [JDict [(str ''timePoints'',
          JList [JDict [(str ''name'', JStr (str ''00'')),
                        (str ''priceWestDenmark'', JList [])]])]])]) = Inl TypeError \<and>
   fetch_prices (\<lambda>t. None)
     (JDict [(str ''chartSeries'',
        JList [JDict [(str ''timePoints'',
          JList [JDict [(str ''name'', JStr (str ''00'')),
                        (str ''priceWestDenmark'', JStr (str ''abc''))],
                 JDict [(str ''name'', JStr (str ''01'')),
                        (str ''priceWestDenmark'', JFloat (Fin (3 / 2)))]])]])]) =
     Inr (Some [(str ''01'', Fin (3 / 2))])"
  by code_simp

section \<open>The comparison of two days without a common hour\<close>

text \<open>
  C10. For every pair of non-empty hourly price maps that share no hour label, the comparison
  report is not the empty string: it is the title line and the fixed-width header row, joined
  by a newline, with no summary line and no row.
\<close>

theorem comparison_without_common_hours:
  "(\<forall>py_sum nan_sorted today td yesterday yd sort_by.
      today \<noteq> [] \<and> yesterday \<noteq> [] \<and>
      (\<forall>h \<in> set hour_labels. map_of today h = None \<or> map_of yesterday h = None) \<longrightarrow>
      format_comparison_for_display py_sum nan_sorted today td yesterday yd sort_by =
        Inr (str '' PRICE COMPARISON ('' @ td @ str '' vs '' @ yd @ str '') '' @ [10] @
             comparison_header) \<and>
      format_comparison_for_display py_sum nan_sorted today td yesterday yd sort_by \<noteq> Inr []) \<and>
   comparison_header =
     str ''Hour        | Yest     | Today    | Change   | % Chg    | Trend''"
proof (intro conjI allI impI)
  show "comparison_header = str ''Hour        | Yest     | Today    | Change   | % Chg    | Trend''"
    by code_simp
next
  fix py_sum :: "pyfloat list \<Rightarrow> pyfloat" and nan_sorted :: "bool \<Rightarrow> price_map \<Rightarrow> price_map"
  fix td yd :: "pystr" and sort_by
  fix today yesterday :: price_map
  assume a: "today \<noteq> [] \<and> yesterday \<noteq> [] \<and>
      (\<forall>h \<in> set hour_labels. map_of today h = None \<or> map_of yesterday h = None)"
  then have c: "collect_diffs today yesterday = \<lparr>diffs = [], up = 0, down = 0, stable = 0\<rparr>"
    using collect_diffs_disjoint by blast
  show r: "format_comparison_for_display py_sum nan_sorted today td yesterday yd sort_by =
        Inr (str '' PRICE COMPARISON ('' @ td @ str '' vs '' @ yd @ str '') '' @ [10] @
             comparison_header)"
    using a c
    by (simp add: format_comparison_for_display_def comparison_lines_def comparison_summary_def
        sorted_diffs_def py_sorted_def stable_sorted_def bind_exc_def Let_def)
  show "format_comparison_for_display py_sum nan_sorted today td yesterday yd sort_by \<noteq> Inr []"
    unfolding r by (simp add: str_def)
qed

text \<open>The theorem for today's map with hour 00 only and yesterday's with hour 01 only.\<close>

theorem comparison_without_common_hours_witness:
  "[(str ''00'', Fin 2)] \<noteq> [] \<and> [(str ''01'', Fin 1)] \<noteq> [] \<and>
   list_all (\<lambda>h. map_of [(str ''00'', Fin 2)] h = None \<or> map_of [(str ''01'', Fin 1)] h = None)
     hour_labels \<and>
   format_comparison_for_display add_up stable_sorted [(str ''00'', Fin 2)] (str ''B'')
     [(str ''01'', Fin 1)] (str ''A'') None =
     Inr (str '' PRICE COMPARISON (B vs A) '' @ [10] @
          str ''Hour        | Yest     | Today    | Change   | % Chg    | Trend'')"
proof -
  have h: "list_all (\<lambda>h. map_of [(str ''00'', Fin 2)] h = None \<or> map_of [(str ''01'', Fin 1)] h = None)
     hour_labels" by code_simp
  then have h': "\<forall>h \<in> set hour_labels. map_of [(str ''00'', Fin 2)] h = None \<or>
      map_of [(str ''01'', Fin 1)] h = None"
    by (simp add: list_all_iff)
  note t = comparison_without_common_hours [THEN conjunct1, rule_format,
      where today = "[(str ''00'', Fin 2)]" and yesterday = "[(str ''01'', Fin 1)]"
        and td = "str ''B''" and py_sum = add_up and nan_sorted = stable_sorted
        and yd = "str ''A''" and sort_by = None, THEN conjunct1]
  note hd = comparison_without_common_hours [THEN conjunct2]
  have "format_comparison_for_display add_up stable_sorted [(str ''00'', Fin 2)] (str ''B'')
     [(str ''01'', Fin 1)] (str ''A'') None =
     Inr (str '' PRICE COMPARISON ('' @ str ''B'' @ str '' vs '' @ str ''A'' @ str '') '' @ [10] @
          comparison_header)"
    using h' by (intro t) simp
  then show ?thesis using h hd by (simp add: str_def)
qed

end
